theory Spec2Isabelle
  imports Complex_Main
begin

section \<open>The recipe runner of \<^verbatim>\<open>backend/recipes/base.py\<close>\<close>

subsection \<open>Values, errors and the plan\<close>

text \<open>
  A plan is a Python dictionary read from a recipe file. The values that the code
  stores or compares are numbers and strings; \<open>pval\<close> is that universe. Numbers are
  exact reals: the comparisons of the control routines are the ones of the source, on
  mathematical numbers instead of IEEE doubles.
\<close>

datatype pval = PNum real | PStr string

text \<open>The exceptions the modelled code can raise: a missing dictionary key, a list index
  out of range, and arithmetic or ordering between a number and a string.\<close>

datatype error = KeyError string | IndexError | TypeError

text \<open>One entry of a step's \<^verbatim>\<open>options\<close> array: \<^verbatim>\<open>{'text': ..., 'next': ...}\<close>.\<close>

record recipe_option =
  opt_text :: string
  opt_next :: int

text \<open>
  One element of \<^verbatim>\<open>plan['steps']\<close>. Every key the code reads is optional in the
  dictionary, so every field is an \<open>option\<close>: \<open>None\<close> is "key absent", which the code
  either tests with \<^verbatim>\<open>in\<close> or turns into a \<^verbatim>\<open>KeyError\<close> by indexing.
\<close>

record plan_step =
  st_message :: "string option"
  st_next :: "int option"
  st_icon :: "string option"
  st_options :: "recipe_option list option"
  st_baseTask :: "string option"
  st_task :: "string option"
  st_parameters :: "(string \<rightharpoonup> pval) option"
  st_done :: "bool option"

text \<open>The plan object: \<^verbatim>\<open>steps\<close> is an array (module documentation), indexed by
  \<^verbatim>\<open>self.step\<close>.\<close>

record plan =
  title :: string
  steps :: "plan_step list"

text \<open>Python list indexing \<^verbatim>\<open>xs[i]\<close>: a negative index counts from the end, and an
  index outside \<open>-len \<le> i < len\<close> raises \<^verbatim>\<open>IndexError\<close>.\<close>

definition py_index :: "'a list \<Rightarrow> int \<Rightarrow> error + 'a" where
  "py_index xs i =
     (if 0 \<le> i \<and> i < int (length xs) then Inr (xs ! nat i)
      else if - int (length xs) \<le> i \<and> i < 0 then Inr (xs ! nat (int (length xs) + i))
      else Inl IndexError)"

subsection \<open>The outside world: hardware and Task Runner\<close>

text \<open>
  The modules \<^verbatim>\<open>hardware\<close> and \<^verbatim>\<open>celery\<close> are imported, not defined, by the file.
  Every call into them that acts on the world is recorded, in order, in a trace; the line
  \<^verbatim>\<open>print('Running step ' + str(self.step))\<close> of \<^verbatim>\<open>runStep\<close> is recorded as well. The
  pure queries (\<^verbatim>\<open>getTemp\<close>, \<^verbatim>\<open>secondSinceStart\<close>) read the next value of a stream of
  readings that the world supplies. What \<^verbatim>\<open>celery.isTaskComplete()\<close> and
  \<^verbatim>\<open>celery.runTask(...)\<close> answer is a parameter of the operation that asks.
\<close>

datatype event =
    TurnHeaterOn
  | TurnHeaterOff
  | TurnCoolerOn
  | TurnCoolerOff
  | Sleep real
  | IsTaskComplete
  | RunTask string "string \<rightharpoonup> pval" bool
  | PrintRunningStep int

record world =
  trace :: "event list"
  temps :: "nat \<Rightarrow> real"
  tempReads :: nat
  clock :: "nat \<Rightarrow> real"
  clockReads :: nat

definition emit :: "event \<Rightarrow> world \<Rightarrow> world" where
  "emit e w = w\<lparr>trace := trace w @ [e]\<rparr>"

definition turnHeaterOn :: "world \<Rightarrow> world" where
  "turnHeaterOn = emit TurnHeaterOn"

definition turnHeaterOff :: "world \<Rightarrow> world" where
  "turnHeaterOff = emit TurnHeaterOff"

definition turnCoolerOn :: "world \<Rightarrow> world" where
  "turnCoolerOn = emit TurnCoolerOn"

definition turnCoolerOff :: "world \<Rightarrow> world" where
  "turnCoolerOff = emit TurnCoolerOff"

definition sleep :: "real \<Rightarrow> world \<Rightarrow> world" where
  "sleep d = emit (Sleep d)"

definition getTemp :: "world \<Rightarrow> real \<times> world" where
  "getTemp w = (temps w (tempReads w), w\<lparr>tempReads := Suc (tempReads w)\<rparr>)"

definition secondSinceStart :: "world \<Rightarrow> real \<times> world" where
  "secondSinceStart w = (clock w (clockReads w), w\<lparr>clockReads := Suc (clockReads w)\<rparr>)"

subsection \<open>The class \<^verbatim>\<open>Recipe\<close>\<close>

datatype status = Idle | Running | UserInput | Complete | Error

text \<open>The instance attributes that the methods read and write. \<^verbatim>\<open>time\<close> starts as the
  empty string and later holds whatever \<^verbatim>\<open>parameters['time']\<close> is.\<close>

record recipe =
  step :: int
  message :: string
  status :: status
  options :: "string list"
  icon :: string
  time :: pval

definition initial :: recipe where
  "initial = \<lparr>step = 0, message = [], status = Idle, options = [], icon = [],
              time = PStr []\<rparr>"

text \<open>The dictionary that \<^verbatim>\<open>getStatus\<close> builds.\<close>

record status_object =
  so_status :: status
  so_step :: int
  so_message :: string
  so_options :: "string list"
  so_icon :: string
  so_time :: pval

definition getStatus :: "recipe \<Rightarrow> status_object" where
  "getStatus r = \<lparr>so_status = status r, so_step = step r, so_message = message r,
                  so_options = options r, so_icon = icon r, so_time = time r\<rparr>"

text \<open>A method leaves the object and the world as they are when it returns or raises;
  the second component is what it raised (\<open>Inl\<close>) or returned (\<open>Inr\<close>).\<close>

type_synonym machine = "recipe \<times> world"

definition stop :: "machine \<Rightarrow> machine" where
  "stop m =
     (case m of (r, w) \<Rightarrow>
        (r\<lparr>step := - 1, status := Idle, message := [], options := [], time := PStr []\<rparr>,
         turnCoolerOff (turnHeaterOff w)))"

text \<open>Lines 251 to 260 of \<^verbatim>\<open>runStep\<close>: the \<^verbatim>\<open>time\<close> field and the \<^verbatim>\<open>done\<close> flag.\<close>

definition finishStep :: "plan_step \<Rightarrow> recipe \<Rightarrow> recipe" where
  "finishStep st r =
     (let r1 = (case st_parameters st of
                  None \<Rightarrow> r\<lparr>time := PStr []\<rparr>
                | Some ps \<Rightarrow> (case ps ''time'' of
                               None \<Rightarrow> r\<lparr>time := PStr []\<rparr>
                             | Some t \<Rightarrow> r\<lparr>time := t\<rparr>))
      in if st_done st = Some True then r1\<lparr>status := Complete\<rparr> else r1)"

text \<open>\<^verbatim>\<open>runStep\<close>; \<open>accepted\<close> is the answer of \<^verbatim>\<open>celery.runTask\<close>, should it be asked.\<close>

definition runStep :: "plan \<Rightarrow> bool \<Rightarrow> machine \<Rightarrow> machine \<times> (error + bool)" where
  "runStep p accepted m =
     (case m of (r, w0) \<Rightarrow>
      let w = emit (PrintRunningStep (step r)) w0 in
      case py_index (steps p) (step r) of
        Inl e \<Rightarrow> ((r, w), Inl e)
      | Inr st \<Rightarrow>
         (case st_message st of
            None \<Rightarrow> ((r, w), Inl (KeyError ''message''))
          | Some msg \<Rightarrow>
             let r1 = r\<lparr>message := msg\<rparr>;
                 opts = (case st_options st of None \<Rightarrow> [] | Some os \<Rightarrow> map opt_text os);
                 r2 = (if 0 < length opts then r1\<lparr>status := UserInput\<rparr> else r1);
                 r3 = r2\<lparr>options := opts\<rparr>;
                 r4 = (case st_icon st of None \<Rightarrow> r3 | Some i \<Rightarrow> r3\<lparr>icon := i\<rparr>)
             in (case st_baseTask st of
                   None \<Rightarrow> ((finishStep st r4, w), Inr True)
                 | Some bt \<Rightarrow>
                    if bt = ''humanTask'' then ((finishStep st r4, w), Inr True)
                    else
                      let task = (case st_task st of Some t \<Rightarrow> t | None \<Rightarrow> bt);
                          base = (st_task st = None)
                      in (case st_parameters st of
                            None \<Rightarrow> ((r4, w), Inl (KeyError ''parameters''))
                          | Some ps \<Rightarrow>
                             let w1 = emit (RunTask task ps base) w in
                             if accepted
                             then ((finishStep st (r4\<lparr>status := Running\<rparr>), w1), Inr True)
                             else ((r4\<lparr>status := Error\<rparr>, w1), Inr False)))))"

definition start :: "plan \<Rightarrow> bool \<Rightarrow> machine \<Rightarrow> machine \<times> (error + unit)" where
  "start p accepted m =
     (case m of (r, w) \<Rightarrow>
      case runStep p accepted (r\<lparr>step := 0\<rparr>, w) of
        (m', Inl e) \<Rightarrow> (m', Inl e)
      | (m', Inr _) \<Rightarrow> (m', Inr ()))"

text \<open>\<^verbatim>\<open>updateStatus\<close>; \<open>taskComplete\<close> is the answer of \<^verbatim>\<open>celery.isTaskComplete\<close>, should
  it be asked.\<close>

definition updateStatus ::
  "plan \<Rightarrow> bool \<Rightarrow> bool \<Rightarrow> machine \<Rightarrow> machine \<times> (error + status_object)" where
  "updateStatus p taskComplete accepted m =
     (case m of (r, w0) \<Rightarrow>
      if status r = Running then
        let w = emit IsTaskComplete w0 in
        if taskComplete then
          (case py_index (steps p) (step r) of
             Inl e \<Rightarrow> ((r, w), Inl e)
           | Inr currentStep \<Rightarrow>
              if st_done currentStep = Some True
              then (let m' = stop (r, w) in (m', Inr (getStatus (fst m'))))
              else (case st_next currentStep of
                      None \<Rightarrow> ((r, w), Inr (getStatus r))
                    | Some n \<Rightarrow>
                       (case runStep p accepted (r\<lparr>step := n\<rparr>, w) of
                          (m', Inl e) \<Rightarrow> (m', Inl e)
                        | (m', Inr _) \<Rightarrow> (m', Inr (getStatus (fst m'))))))
        else ((r, w), Inr (getStatus r))
      else ((r, w0), Inr (getStatus r)))"

text \<open>The \<^verbatim>\<open>for\<close> loop of \<^verbatim>\<open>selectOption\<close>: every option whose text matches assigns
  \<^verbatim>\<open>self.step\<close> and sets \<^verbatim>\<open>found\<close>.\<close>

fun scanOptions :: "string \<Rightarrow> recipe_option list \<Rightarrow> recipe \<times> bool \<Rightarrow> recipe \<times> bool" where
  "scanOptions optionValue [] acc = acc"
| "scanOptions optionValue (option # rest) (r, found) =
     (if opt_text option = optionValue
      then scanOptions optionValue rest (r\<lparr>step := opt_next option\<rparr>, True)
      else scanOptions optionValue rest (r, found))"

definition selectOption ::
  "plan \<Rightarrow> string \<Rightarrow> bool \<Rightarrow> machine \<Rightarrow> machine \<times> (error + bool \<times> string)" where
  "selectOption p optionValue accepted m =
     (case m of (r, w) \<Rightarrow>
      case py_index (steps p) (step r) of
        Inl e \<Rightarrow> ((r, w), Inl e)
      | Inr currentStep \<Rightarrow>
         (case (case st_options currentStep of
                  None \<Rightarrow> (r, False)
                | Some os \<Rightarrow> scanOptions optionValue os (r, False)) of
            (r1, found) \<Rightarrow>
              if \<not> found then ((r1, w), Inr (False, ''Invalid option '' @ optionValue))
              else (case runStep p accepted (r1, w) of
                      (m', Inl e) \<Rightarrow> (m', Inl e)
                    | (m', Inr ret) \<Rightarrow> (m', Inr (ret, message (fst m'))))))"

subsection \<open>Control routines\<close>

text \<open>A parameter used as a number: arithmetic or ordering between a sensor reading and
  a string raises \<^verbatim>\<open>TypeError\<close>.\<close>

definition num_of :: "pval \<Rightarrow> error + real" where
  "num_of v = (case v of PNum x \<Rightarrow> Inr x | PStr _ \<Rightarrow> Inl TypeError)"

text \<open>
  The \<^verbatim>\<open>while\<close> loop of \<^verbatim>\<open>heat\<close>. It has no bound of its own, so it is a partial
  function: \<open>None\<close> is "never returns". A result is the world together with what was
  raised, if anything.
\<close>

partial_function (option) heat_loop :: "pval \<Rightarrow> world \<Rightarrow> (world \<times> (error + unit)) option" where
  "heat_loop targetTemp w =
     (case getTemp w of (currentTemp, w1) \<Rightarrow>
        (case num_of targetTemp of
           Inl e \<Rightarrow> Some (w1, Inl e)
         | Inr t \<Rightarrow>
            if currentTemp < t then heat_loop targetTemp (sleep 0.5 w1)
            else Some (w1, Inr ())))"

definition heat :: "(string \<rightharpoonup> pval) \<Rightarrow> world \<Rightarrow> (world \<times> (error + unit)) option" where
  "heat parameters w =
     (case parameters ''temp'' of
        None \<Rightarrow> Some (w, Inl (KeyError ''temp''))
      | Some targetTemp \<Rightarrow>
         (case heat_loop targetTemp (turnHeaterOn w) of
            None \<Rightarrow> None
          | Some (w1, Inl e) \<Rightarrow> Some (w1, Inl e)
          | Some (w1, Inr _) \<Rightarrow> Some (turnHeaterOff w1, Inr ())))"

text \<open>The body of the \<^verbatim>\<open>while\<close> loop of \<^verbatim>\<open>maintain\<close> after the reading is taken: the
  two band tests, in the order of the source.\<close>

definition maintain_bands :: "pval \<Rightarrow> pval \<Rightarrow> pval \<Rightarrow> real \<Rightarrow> world \<Rightarrow> error + world" where
  "maintain_bands targetTemp tolerance type currentTemp w =
     (case num_of tolerance of
        Inl e \<Rightarrow> Inl e
      | Inr tol \<Rightarrow>
         (case num_of targetTemp of
            Inl e \<Rightarrow> Inl e
          | Inr t \<Rightarrow>
             let w1 = (if currentTemp - tol > t
                       then (if type = PStr ''heat'' then turnHeaterOff w else turnCoolerOn w)
                       else w);
                 w2 = (if currentTemp + tol < t
                       then (if type = PStr ''heat'' then turnHeaterOn w1 else turnCoolerOff w1)
                       else w1)
             in Inr w2))"

partial_function (option) maintain_loop ::
  "real \<Rightarrow> pval \<Rightarrow> pval \<Rightarrow> pval \<Rightarrow> pval \<Rightarrow> world \<Rightarrow> (world \<times> (error + unit)) option" where
  "maintain_loop start0 duration targetTemp tolerance type w =
     (case secondSinceStart w of (now, w1) \<Rightarrow>
        (case num_of duration of
           Inl e \<Rightarrow> Some (w1, Inl e)
         | Inr d \<Rightarrow>
            if now - start0 < d then
              (case getTemp (sleep 0.5 w1) of (currentTemp, w2) \<Rightarrow>
                 (case maintain_bands targetTemp tolerance type currentTemp w2 of
                    Inl e \<Rightarrow> Some (w2, Inl e)
                  | Inr w3 \<Rightarrow> maintain_loop start0 duration targetTemp tolerance type w3))
            else Some (w1, Inr ())))"

definition maintain :: "(string \<rightharpoonup> pval) \<Rightarrow> world \<Rightarrow> (world \<times> (error + unit)) option" where
  "maintain parameters w =
     (case parameters ''time'' of
        None \<Rightarrow> Some (w, Inl (KeyError ''time''))
      | Some duration \<Rightarrow>
     (case parameters ''temp'' of
        None \<Rightarrow> Some (w, Inl (KeyError ''temp''))
      | Some targetTemp \<Rightarrow>
     (case parameters ''tolerance'' of
        None \<Rightarrow> Some (w, Inl (KeyError ''tolerance''))
      | Some tolerance \<Rightarrow>
     (case parameters ''type'' of
        None \<Rightarrow> Some (w, Inl (KeyError ''type''))
      | Some type \<Rightarrow>
         (case secondSinceStart w of (start0, w0) \<Rightarrow>
            (case maintain_loop start0 duration targetTemp tolerance type w0 of
               None \<Rightarrow> None
             | Some (w1, Inl e) \<Rightarrow> Some (w1, Inl e)
             | Some (w1, Inr _) \<Rightarrow> Some (turnCoolerOff (turnHeaterOff w1), Inr ())))))))"

definition maintainHeat :: "(string \<rightharpoonup> pval) \<Rightarrow> world \<Rightarrow> (world \<times> (error + unit)) option" where
  "maintainHeat parameters w = maintain (parameters(''type'' \<mapsto> PStr ''heat'')) w"

definition maintainCool :: "(string \<rightharpoonup> pval) \<Rightarrow> world \<Rightarrow> (world \<times> (error + unit)) option" where
  "maintainCool parameters w = maintain (parameters(''type'' \<mapsto> PStr ''cool'')) w"

subsection \<open>Sequences of calls on one \<^verbatim>\<open>Recipe\<close> object\<close>

text \<open>
  A caller drives the object through its public methods. Each call carries the answers
  that the Task Runner gives during it. A call that raises leaves the attributes it had
  already assigned, and the caller can go on calling.
\<close>

datatype call = Start bool | Stop | UpdateStatus bool bool | SelectOption string bool

definition raised :: "error + 'a \<Rightarrow> error option" where
  "raised x = (case x of Inl e \<Rightarrow> Some e | Inr _ \<Rightarrow> None)"

fun exec :: "plan \<Rightarrow> call \<Rightarrow> machine \<Rightarrow> machine \<times> error option" where
  "exec p (Start accepted) m = (case start p accepted m of (m', x) \<Rightarrow> (m', raised x))"
| "exec p Stop m = (stop m, None)"
| "exec p (UpdateStatus taskComplete accepted) m =
     (case updateStatus p taskComplete accepted m of (m', x) \<Rightarrow> (m', raised x))"
| "exec p (SelectOption optionValue accepted) m =
     (case selectOption p optionValue accepted m of (m', x) \<Rightarrow> (m', raised x))"

fun run :: "plan \<Rightarrow> call list \<Rightarrow> machine \<Rightarrow> machine" where
  "run p [] m = m"
| "run p (c # cs) m = run p cs (fst (exec p c m))"


text \<open>
  What the trace says about the step pointer: \<^verbatim>\<open>runStep\<close> prints the id it runs, and
  \<^verbatim>\<open>stop\<close>, which writes \<open>-1\<close>, is the only method that commands the cooler off.
\<close>

definition mark :: "event \<Rightarrow> int list" where
  "mark e = (case e of PrintRunningStep n \<Rightarrow> [n] | TurnCoolerOff \<Rightarrow> [- 1] | _ \<Rightarrow> [])"

definition stepLog :: "event list \<Rightarrow> int list" where
  "stepLog tr = concat (map mark tr)"

text \<open>\<^verbatim>\<open>n\<close> successive invalid selections, each on the object the previous one left.\<close>

fun repeatSelect :: "nat \<Rightarrow> plan \<Rightarrow> string \<Rightarrow> bool \<Rightarrow> machine \<Rightarrow> machine" where
  "repeatSelect 0 p optionValue accepted m = m"
| "repeatSelect (Suc n) p optionValue accepted m =
     repeatSelect n p optionValue accepted (fst (selectOption p optionValue accepted m))"

subsection \<open>Example plans and worlds\<close>

definition noStep :: plan_step where
  "noStep = \<lparr>st_message = None, st_next = None, st_icon = None, st_options = None,
             st_baseTask = None, st_task = None, st_parameters = None, st_done = None\<rparr>"

text \<open>A recipe that asks, heats, and finishes.\<close>

definition brewPlan :: plan where
  "brewPlan = \<lparr>title = ''brew'', steps =
     [noStep\<lparr>st_message := Some ''Add water?'', st_baseTask := Some ''humanTask'',
             st_options := Some [\<lparr>opt_text = ''Yes'', opt_next = 1\<rparr>,
                                 \<lparr>opt_text = ''No'', opt_next = 2\<rparr>]\<rparr>,
      noStep\<lparr>st_message := Some ''Heating'', st_baseTask := Some ''heat'',
             st_parameters := Some [''temp'' \<mapsto> PNum 65], st_next := Some 2,
             st_icon := Some ''temperature''\<rparr>,
      noStep\<lparr>st_message := Some ''Done'', st_done := Some True\<rparr>]\<rparr>"

text \<open>A plan whose final step has no \<^verbatim>\<open>message\<close>: running that step raises
  \<^verbatim>\<open>KeyError\<close> after the step pointer has moved.\<close>

definition stuckPlan :: plan where
  "stuckPlan = \<lparr>title = ''stuck'', steps =
     [noStep\<lparr>st_message := Some ''Heating'', st_baseTask := Some ''heat'',
             st_parameters := Some [''temp'' \<mapsto> PNum 65], st_next := Some 1\<rparr>,
      noStep\<lparr>st_done := Some True\<rparr>]\<rparr>"

text \<open>A step with both a choice and a task.\<close>

definition bothPlan :: plan where
  "bothPlan = \<lparr>title = ''both'', steps =
     [noStep\<lparr>st_message := Some ''Choose'', st_baseTask := Some ''heat'',
             st_parameters := Some [''temp'' \<mapsto> PNum 65],
             st_options := Some [\<lparr>opt_text = ''Yes'', opt_next = 1\<rparr>]\<rparr>,
      noStep\<lparr>st_message := Some ''Done'', st_done := Some True\<rparr>]\<rparr>"

text \<open>Two options with the same text.\<close>

definition twicePlan :: plan where
  "twicePlan = \<lparr>title = ''twice'', steps =
     [noStep\<lparr>st_message := Some ''Go?'', st_baseTask := Some ''humanTask'',
             st_options := Some [\<lparr>opt_text = ''Go'', opt_next = 1\<rparr>,
                                 \<lparr>opt_text = ''Go'', opt_next = 2\<rparr>]\<rparr>,
      noStep\<lparr>st_message := Some ''First'', st_done := Some True\<rparr>,
      noStep\<lparr>st_message := Some ''Second'', st_done := Some True\<rparr>]\<rparr>"

text \<open>A world with an empty trace, a sensor that starts at 60 and rises by 1 with each
  reading, and a clock that advances by half a second with each reading.\<close>

definition world0 :: world where
  "world0 = \<lparr>trace = [], temps = (\<lambda>k. 60 + real k), tempReads = 0,
             clock = (\<lambda>k. real k / 2), clockReads = 0\<rparr>"



text \<open>Parameters for \<^verbatim>\<open>maintain\<close>: hold 65 degrees within 2 for one second, heating.\<close>

definition holdParameters :: "string \<rightharpoonup> pval" where
  "holdParameters = [''time'' \<mapsto> PNum 1, ''temp'' \<mapsto> PNum 65, ''tolerance'' \<mapsto> PNum 2,
                     ''type'' \<mapsto> PStr ''heat'']"

section \<open>Properties of the \<^verbatim>\<open>Recipe\<close> methods\<close>

lemmas recipe_ops = start_def runStep_def updateStatus_def selectOption_def stop_def
  py_index_def finishStep_def emit_def getStatus_def turnHeaterOff_def turnCoolerOff_def

lemmas examples = brewPlan_def stuckPlan_def bothPlan_def twicePlan_def noStep_def world0_def
  initial_def raised_def

text \<open>The loop of \<^verbatim>\<open>selectOption\<close> in closed form: the last matching option decides.\<close>

lemma scanOptions_filter:
  "scanOptions v os (r, found) =
     (if filter (\<lambda>option. opt_text option = v) os = [] then (r, found)
      else (r\<lparr>step := opt_next (last (filter (\<lambda>option. opt_text option = v) os))\<rparr>, True))"
  by (induction os arbitrary: r found) auto

lemma scanOptions_no_match:
  "v \<notin> opt_text ` set os \<Longrightarrow> scanOptions v os acc = acc"
  by (induction os arbitrary: acc) (auto split: prod.splits)

lemma brew_started:
  "run brewPlan [Start True] (initial, world0) =
      (\<lparr>step = 0, message = ''Add water?'', status = UserInput, options = [''Yes'', ''No''],
        icon = [], time = PStr []\<rparr>, world0\<lparr>trace := [PrintRunningStep 0]\<rparr>)"
  by (simp add: recipe_ops examples)

lemma stuck_state:
  "run stuckPlan [Start True, UpdateStatus True True] (initial, world0) =
     (\<lparr>step = 1, message = ''Heating'', status = Running, options = [], icon = [],
       time = PStr []\<rparr>,
      world0\<lparr>trace := [PrintRunningStep 0, RunTask ''heat'' [''temp'' \<mapsto> PNum 65] True,
                        IsTaskComplete, PrintRunningStep 1]\<rparr>)"
  by (simp add: recipe_ops examples)

subsection \<open>The poller on a finished task of a \<^verbatim>\<open>done\<close> step\<close>

text \<open>
  Against C1 as stated. On \<open>stuckPlan\<close>, \<^verbatim>\<open>start()\<close> dispatches step 0; the poller then
  moves to step 1, whose execution raises before anything but the step pointer changed,
  so the object is left with status \<^verbatim>\<open>running\<close>, message \<^verbatim>\<open>Heating\<close> and a current step
  whose \<^verbatim>\<open>done\<close> flag is true. The next poll that finds the task complete leaves status
  \<^verbatim>\<open>idle\<close> and an empty message.
\<close>

theorem updateStatus_done_counterexample:
  "status (fst (run stuckPlan [Start True, UpdateStatus True True] (initial, world0))) = Running \<and>
   message (fst (run stuckPlan [Start True, UpdateStatus True True] (initial, world0))) = ''Heating'' \<and>
   py_index (steps stuckPlan)
     (step (fst (run stuckPlan [Start True, UpdateStatus True True] (initial, world0))))
     = Inr (noStep\<lparr>st_done := Some True\<rparr>) \<and>
   status (fst (fst (updateStatus stuckPlan True True
     (run stuckPlan [Start True, UpdateStatus True True] (initial, world0))))) = Idle \<and>
   message (fst (fst (updateStatus stuckPlan True True
     (run stuckPlan [Start True, UpdateStatus True True] (initial, world0))))) = []"
  unfolding stuck_state
  by (simp add: recipe_ops examples)

text \<open>
  C1, amended. In a state with status \<^verbatim>\<open>running\<close> whose current step exists and has a
  true \<^verbatim>\<open>done\<close> flag, a poll that finds the task complete calls \<^verbatim>\<open>stop()\<close>: it asks the
  Task Runner once, commands heater off and cooler off, and resets the object: step
  \<open>-1\<close>, status \<^verbatim>\<open>idle\<close>, empty message, no options, empty time. Only the icon
  survives. The returned status object shows the reset values.
\<close>

theorem updateStatus_done_stops:
  assumes "status r = Running"
    and "py_index (steps p) (step r) = Inr currentStep"
    and "st_done currentStep = Some True"
  shows "updateStatus p True accepted (r, w) =
     ((r\<lparr>step := - 1, status := Idle, message := [], options := [], time := PStr []\<rparr>,
       w\<lparr>trace := trace w @ [IsTaskComplete, TurnHeaterOff, TurnCoolerOff]\<rparr>),
      Inr \<lparr>so_status = Idle, so_step = - 1, so_message = [], so_options = [],
           so_icon = icon r, so_time = PStr []\<rparr>)"
  using assms
  by (simp add: updateStatus_def stop_def getStatus_def turnHeaterOff_def turnCoolerOff_def emit_def)

theorem updateStatus_done_stops_witness:
  "updateStatus stuckPlan True True
     (run stuckPlan [Start True, UpdateStatus True True] (initial, world0)) =
     ((\<lparr>step = - 1, message = [], status = Idle, options = [], icon = [], time = PStr []\<rparr>,
       world0\<lparr>trace := [PrintRunningStep 0, RunTask ''heat'' [''temp'' \<mapsto> PNum 65] True,
                        IsTaskComplete, PrintRunningStep 1,
                        IsTaskComplete, TurnHeaterOff, TurnCoolerOff]\<rparr>),
      Inr \<lparr>so_status = Idle, so_step = - 1, so_message = [], so_options = [],
           so_icon = [], so_time = PStr []\<rparr>)"
  unfolding stuck_state
  using updateStatus_done_stops [of "\<lparr>step = 1, message = ''Heating'', status = Running,
      options = [], icon = [], time = PStr []\<rparr>" stuckPlan "noStep\<lparr>st_done := Some True\<rparr>" True
      "world0\<lparr>trace := [PrintRunningStep 0, RunTask ''heat'' [''temp'' \<mapsto> PNum 65] True,
                        IsTaskComplete, PrintRunningStep 1]\<rparr>"]
  by (simp add: py_index_def examples)

subsection \<open>A step with options\<close>

text \<open>
  Against C2 as stated. Step 0 of \<open>bothPlan\<close> has one option and the base task
  \<^verbatim>\<open>heat\<close>. Running it asks the Task Runner to run \<^verbatim>\<open>heat\<close>, and the status it leaves
  is \<^verbatim>\<open>running\<close>, not \<^verbatim>\<open>user_input\<close>.
\<close>

theorem runStep_options_counterexample:
  "py_index (steps bothPlan) 0 = Inr (steps bothPlan ! 0) \<and>
   st_options (steps bothPlan ! 0) = Some [\<lparr>opt_text = ''Yes'', opt_next = 1\<rparr>] \<and>
   st_baseTask (steps bothPlan ! 0) = Some ''heat'' \<and>
   status (fst (fst (runStep bothPlan True (initial, world0)))) = Running \<and>
   trace (snd (fst (runStep bothPlan True (initial, world0)))) =
     [PrintRunningStep 0, RunTask ''heat'' [''temp'' \<mapsto> PNum 65] True]"
  by (simp add: recipe_ops examples)

text \<open>
  C2, amended. Let the current step have a message and a non-empty \<^verbatim>\<open>options\<close> list.
  If it names no \<^verbatim>\<open>baseTask\<close>, or names \<^verbatim>\<open>humanTask\<close>, \<^verbatim>\<open>runStep\<close> returns True, asks
  nothing of the Task Runner, and leaves status \<^verbatim>\<open>user_input\<close> (\<^verbatim>\<open>complete\<close> when the
  step's \<^verbatim>\<open>done\<close> flag is true). If it names another \<^verbatim>\<open>baseTask\<close> and has parameters,
  \<^verbatim>\<open>runStep\<close> does dispatch the task: the status left is \<^verbatim>\<open>running\<close> (\<^verbatim>\<open>complete\<close> when
  \<^verbatim>\<open>done\<close> is true) if the Task Runner accepts, \<^verbatim>\<open>error\<close> if it refuses. In both cases
  the option texts are stored.
\<close>

theorem runStep_options:
  assumes "py_index (steps p) (step r) = Inr st"
    and "st_message st = Some msg"
    and "st_options st = Some os" and "os \<noteq> []"
  shows "((st_baseTask st = None \<or> st_baseTask st = Some ''humanTask'') \<longrightarrow>
            snd (runStep p accepted (r, w)) = Inr True \<and>
            status (fst (fst (runStep p accepted (r, w)))) =
              (if st_done st = Some True then Complete else UserInput) \<and>
            options (fst (fst (runStep p accepted (r, w)))) = map opt_text os \<and>
            trace (snd (fst (runStep p accepted (r, w)))) =
              trace w @ [PrintRunningStep (step r)]) \<and>
         (\<forall>bt ps. st_baseTask st = Some bt \<and> bt \<noteq> ''humanTask'' \<and> st_parameters st = Some ps \<longrightarrow>
            snd (runStep p accepted (r, w)) = Inr accepted \<and>
            status (fst (fst (runStep p accepted (r, w)))) =
              (if \<not> accepted then Error
               else if st_done st = Some True then Complete else Running) \<and>
            options (fst (fst (runStep p accepted (r, w)))) = map opt_text os \<and>
            trace (snd (fst (runStep p accepted (r, w)))) =
              trace w @ [PrintRunningStep (step r),
                         RunTask (case st_task st of Some t \<Rightarrow> t | None \<Rightarrow> bt) ps
                                 (st_task st = None)])"
  using assms
  by (auto simp add: runStep_def emit_def finishStep_def Let_def split: option.splits)

theorem runStep_options_witness:
  "(snd (runStep brewPlan True (initial, world0)) = Inr True \<and>
    status (fst (fst (runStep brewPlan True (initial, world0)))) = UserInput \<and>
    options (fst (fst (runStep brewPlan True (initial, world0)))) = [''Yes'', ''No''] \<and>
    trace (snd (fst (runStep brewPlan True (initial, world0)))) = [PrintRunningStep 0]) \<and>
   (snd (runStep bothPlan False (initial, world0)) = Inr False \<and>
    status (fst (fst (runStep bothPlan False (initial, world0)))) = Error \<and>
    options (fst (fst (runStep bothPlan False (initial, world0)))) = [''Yes''] \<and>
    trace (snd (fst (runStep bothPlan False (initial, world0)))) =
      [PrintRunningStep 0, RunTask ''heat'' [''temp'' \<mapsto> PNum 65] True])"
proof -
  have a: "py_index (steps brewPlan) (step initial) = Inr (steps brewPlan ! 0)"
    and b: "py_index (steps bothPlan) (step initial) = Inr (steps bothPlan ! 0)"
    by (simp_all add: py_index_def examples)
  have a1: "st_message (steps brewPlan ! 0) = Some ''Add water?''"
    and a2: "st_options (steps brewPlan ! 0) =
          Some [\<lparr>opt_text = ''Yes'', opt_next = 1\<rparr>, \<lparr>opt_text = ''No'', opt_next = 2\<rparr>]"
    and a3: "[\<lparr>opt_text = ''Yes'', opt_next = 1\<rparr>, \<lparr>opt_text = ''No'', opt_next = 2\<rparr>] \<noteq> []"
    and a4: "st_baseTask (steps brewPlan ! 0) = Some ''humanTask''"
    and a5: "st_done (steps brewPlan ! 0) = None"
    by (simp_all add: examples)
  have b1: "st_message (steps bothPlan ! 0) = Some ''Choose''"
    and b2: "st_options (steps bothPlan ! 0) = Some [\<lparr>opt_text = ''Yes'', opt_next = 1\<rparr>]"
    and b3: "[\<lparr>opt_text = ''Yes'', opt_next = 1\<rparr>] \<noteq> []"
    and b4: "st_baseTask (steps bothPlan ! 0) = Some ''heat''"
    and b5: "st_parameters (steps bothPlan ! 0) = Some [''temp'' \<mapsto> PNum 65]"
    and b6: "st_task (steps bothPlan ! 0) = None"
    by (simp_all add: examples)
  from runStep_options [OF a a1 a2 a3, of True world0] a4 a5
  have one: "snd (runStep brewPlan True (initial, world0)) = Inr True \<and>
    status (fst (fst (runStep brewPlan True (initial, world0)))) = UserInput \<and>
    options (fst (fst (runStep brewPlan True (initial, world0)))) = [''Yes'', ''No''] \<and>
    trace (snd (fst (runStep brewPlan True (initial, world0)))) = [PrintRunningStep 0]"
    by (simp add: initial_def world0_def)
  from runStep_options [OF b b1 b2 b3, of False world0] b4 b5 b6
  have two: "snd (runStep bothPlan False (initial, world0)) = Inr False \<and>
    status (fst (fst (runStep bothPlan False (initial, world0)))) = Error \<and>
    options (fst (fst (runStep bothPlan False (initial, world0)))) = [''Yes''] \<and>
    trace (snd (fst (runStep bothPlan False (initial, world0)))) =
      [PrintRunningStep 0, RunTask ''heat'' [''temp'' \<mapsto> PNum 65] True]"
    by (simp add: initial_def world0_def)
  from one two show ?thesis by blast
qed

subsection \<open>Selecting an option\<close>

text \<open>
  C4. When the current step exists and none of its options has the given text (or it
  has no \<^verbatim>\<open>options\<close> key), \<^verbatim>\<open>selectOption\<close> returns False with the message
  \<^verbatim>\<open>'Invalid option '\<close> followed by the text, and changes neither the object nor the
  world; so does any number of repetitions.
\<close>

theorem selectOption_invalid:
  assumes "py_index (steps p) (step r) = Inr currentStep"
    and "\<forall>os. st_options currentStep = Some os \<longrightarrow> optionValue \<notin> opt_text ` set os"
  shows "selectOption p optionValue accepted (r, w) =
           ((r, w), Inr (False, ''Invalid option '' @ optionValue)) \<and>
         repeatSelect n p optionValue accepted (r, w) = (r, w)"
proof -
  have one: "selectOption p optionValue accepted (r, w) =
           ((r, w), Inr (False, ''Invalid option '' @ optionValue))"
    using assms
    by (cases "st_options currentStep") (simp_all add: selectOption_def scanOptions_no_match)
  have "repeatSelect n p optionValue accepted (r, w) = (r, w)"
    by (induction n) (simp_all add: one)
  with one show ?thesis by simp
qed

theorem selectOption_invalid_witness:
  "selectOption brewPlan ''Maybe'' True (run brewPlan [Start True] (initial, world0)) =
     (run brewPlan [Start True] (initial, world0), Inr (False, ''Invalid option Maybe'')) \<and>
   repeatSelect 3 brewPlan ''Maybe'' True (run brewPlan [Start True] (initial, world0)) =
     run brewPlan [Start True] (initial, world0)"
proof -
  have a: "py_index (steps brewPlan) (step (fst (run brewPlan [Start True] (initial, world0))))
             = Inr (steps brewPlan ! 0)"
    unfolding brew_started by (simp add: py_index_def examples)
  have b: "\<forall>os. st_options (steps brewPlan ! 0) = Some os \<longrightarrow> ''Maybe'' \<notin> opt_text ` set os"
    by (simp add: examples)
  show ?thesis
    using selectOption_invalid [OF a b, of True "snd (run brewPlan [Start True] (initial, world0))" 3]
    by simp
qed

text \<open>
  C9. \<^verbatim>\<open>selectOption\<close> does not look at the status. Whenever the current step has an
  option with the given text, the step pointer becomes the \<^verbatim>\<open>next\<close> of the last such
  option in the list, and that step is run: the call returns what \<^verbatim>\<open>runStep\<close> returns,
  paired with the message then current.
\<close>

theorem selectOption_last_match:
  assumes "py_index (steps p) (step r) = Inr currentStep"
    and "st_options currentStep = Some os"
    and "filter (\<lambda>option. opt_text option = optionValue) os \<noteq> []"
  shows "selectOption p optionValue accepted (r, w) =
     (case runStep p accepted
             (r\<lparr>step := opt_next (last (filter (\<lambda>option. opt_text option = optionValue) os))\<rparr>, w) of
        (m', Inl e) \<Rightarrow> (m', Inl e)
      | (m', Inr ret) \<Rightarrow> (m', Inr (ret, message (fst m'))))"
  using assms by (simp add: selectOption_def scanOptions_filter)

theorem selectOption_last_match_witness:
  "selectOption twicePlan ''Go'' True
     (\<lparr>step = 0, message = ''Go?'', status = Complete, options = [''Go'', ''Go''], icon = [],
       time = PStr []\<rparr>, world0) =
     ((\<lparr>step = 2, message = ''Second'', status = Complete, options = [], icon = [],
        time = PStr []\<rparr>, world0\<lparr>trace := [PrintRunningStep 2]\<rparr>),
      Inr (True, ''Second''))"
proof -
  have a: "py_index (steps twicePlan) 0 = Inr (steps twicePlan ! 0)"
    by (simp add: py_index_def examples)
  have b: "st_options (steps twicePlan ! 0) =
       Some [\<lparr>opt_text = ''Go'', opt_next = 1\<rparr>, \<lparr>opt_text = ''Go'', opt_next = 2\<rparr>]"
    by (simp add: examples)
  show ?thesis
    using selectOption_last_match [of twicePlan "\<lparr>step = 0, message = ''Go?'', status = Complete,
        options = [''Go'', ''Go''], icon = [], time = PStr []\<rparr>" "steps twicePlan ! 0"
        "[\<lparr>opt_text = ''Go'', opt_next = 1\<rparr>, \<lparr>opt_text = ''Go'', opt_next = 2\<rparr>]" "''Go''" True world0]
    by (simp add: recipe_ops examples)
qed

subsection \<open>The poller outside \<^verbatim>\<open>running\<close>\<close>

text \<open>
  C5. When the status is not \<^verbatim>\<open>running\<close>, \<^verbatim>\<open>updateStatus\<close> changes no attribute,
  leaves the world as it is (no call to the hardware or the Task Runner is recorded, and
  the result does not depend on what the Task Runner would answer), and returns the
  status object that \<^verbatim>\<open>getStatus\<close> gives for the unchanged object.
\<close>

theorem updateStatus_not_running_noop:
  "status r \<noteq> Running \<Longrightarrow>
   updateStatus p taskComplete accepted (r, w) = ((r, w), Inr (getStatus r))"
  by (simp add: updateStatus_def)

theorem updateStatus_not_running_noop_witness:
  "status (fst (run brewPlan [Start True] (initial, world0))) = UserInput \<and>
   updateStatus brewPlan True True (run brewPlan [Start True] (initial, world0)) =
     (run brewPlan [Start True] (initial, world0),
      Inr \<lparr>so_status = UserInput, so_step = 0, so_message = ''Add water?'',
           so_options = [''Yes'', ''No''], so_icon = [], so_time = PStr []\<rparr>)"
proof -
  have st: "run brewPlan [Start True] (initial, world0) =
      (\<lparr>step = 0, message = ''Add water?'', status = UserInput, options = [''Yes'', ''No''],
        icon = [], time = PStr []\<rparr>, world0\<lparr>trace := [PrintRunningStep 0]\<rparr>)"
    by (simp add: recipe_ops examples)
  show ?thesis
    using updateStatus_not_running_noop [of "fst (run brewPlan [Start True] (initial, world0))"
        brewPlan True True "snd (run brewPlan [Start True] (initial, world0))"]
    unfolding st by (simp add: getStatus_def)
qed

subsection \<open>A refused dispatch\<close>

text \<open>
  C10. When the current step has a message, a \<^verbatim>\<open>baseTask\<close> other than \<^verbatim>\<open>humanTask\<close>
  and parameters, and the Task Runner refuses the task, \<^verbatim>\<open>runStep\<close> returns False with
  status \<^verbatim>\<open>error\<close>. The message and the options are already those of the new step,
  and so is the icon when the step has one; \<^verbatim>\<open>time\<close> and every other attribute keep
  their values, also when the step's \<^verbatim>\<open>done\<close> flag is true. The message is the step's
  own: the text of the local variable is not stored.
\<close>

theorem runStep_dispatch_conflict:
  assumes "py_index (steps p) (step r) = Inr st"
    and "st_message st = Some msg"
    and "st_baseTask st = Some bt" and "bt \<noteq> ''humanTask''"
    and "st_parameters st = Some ps"
  shows "runStep p False (r, w) =
     ((r\<lparr>message := msg,
         options := (case st_options st of None \<Rightarrow> [] | Some os \<Rightarrow> map opt_text os),
         icon := (case st_icon st of None \<Rightarrow> icon r | Some i \<Rightarrow> i),
         status := Error\<rparr>,
       w\<lparr>trace := trace w @ [PrintRunningStep (step r),
                    RunTask (case st_task st of Some t \<Rightarrow> t | None \<Rightarrow> bt) ps (st_task st = None)]\<rparr>),
      Inr False)"
  using assms
  by (simp add: runStep_def emit_def Let_def split: option.splits)

theorem runStep_dispatch_conflict_witness:
  "runStep brewPlan False
     (\<lparr>step = 1, message = ''Add water?'', status = UserInput, options = [''Yes'', ''No''],
       icon = [], time = PNum 600\<rparr>, world0) =
     ((\<lparr>step = 1, message = ''Heating'', status = Error, options = [],
        icon = ''temperature'', time = PNum 600\<rparr>,
       world0\<lparr>trace := [PrintRunningStep 1, RunTask ''heat'' [''temp'' \<mapsto> PNum 65] True]\<rparr>),
      Inr False)"
  using runStep_dispatch_conflict [of brewPlan
      "\<lparr>step = 1, message = ''Add water?'', status = UserInput, options = [''Yes'', ''No''],
       icon = [], time = PNum 600\<rparr>"
      "steps brewPlan ! 1" "''Heating''" "''heat''" "[''temp'' \<mapsto> PNum 65]" world0]
  by (simp add: py_index_def examples)

subsection \<open>The step pointer\<close>

lemma stepLog_append [simp]: "stepLog (a @ b) = stepLog a @ stepLog b"
  by (simp add: stepLog_def)

lemma stepLog_Nil [simp]: "stepLog [] = []"
  by (simp add: stepLog_def)

lemma stepLog_Cons [simp]: "stepLog (e # es) = mark e @ stepLog es"
  by (simp add: stepLog_def)

lemma mark_simps [simp]:
  "mark (PrintRunningStep n) = [n]"
  "mark TurnCoolerOff = [- 1]"
  "mark TurnHeaterOff = []"
  "mark IsTaskComplete = []"
  "mark (RunTask t ps b) = []"
  by (simp_all add: mark_def)





















section \<open>Properties of the control routines\<close>

lemmas hardware_ops = emit_def turnHeaterOn_def turnHeaterOff_def turnCoolerOn_def
  turnCoolerOff_def sleep_def getTemp_def secondSinceStart_def

subsection \<open>The hysteresis bands of \<^verbatim>\<open>maintain\<close>\<close>



subsection \<open>\<^verbatim>\<open>maintain\<close> leaves heater and cooler off\<close>

lemma maintain_bands_trace:
  "maintain_bands targetTemp tolerance type currentTemp w = Inr w' \<Longrightarrow>
   \<exists>evs. trace w' = trace w @ evs"
  by (auto simp add: maintain_bands_def num_of_def hardware_ops Let_def
      split: pval.splits if_splits)

lemma maintain_bands_clock:
  "maintain_bands targetTemp tolerance type currentTemp w = Inr w' \<Longrightarrow>
   clock w' = clock w \<and> clockReads w' = clockReads w"
  by (auto simp add: maintain_bands_def num_of_def hardware_ops Let_def
      split: pval.splits if_splits)

lemma maintain_loop_trace:
  assumes "maintain_loop start0 duration targetTemp tolerance type w = Some y"
  shows "\<exists>evs. trace (fst y) = trace w @ evs"
  using assms
proof (induction rule: maintain_loop.raw_induct [rotated 1, consumes 1])
  case (1 loop start0 duration targetTemp tolerance type w y)
  show ?case
  proof (cases "num_of duration")
    case (Inl e)
    with 1(2) show ?thesis by (auto simp add: hardware_ops)
  next
    case (Inr d)
    show ?thesis
    proof (cases "clock w (clockReads w) - start0 < d")
      case False
      with 1(2) Inr show ?thesis by (auto simp add: hardware_ops)
    next
      case True
      let ?w2 = "snd (getTemp (sleep 0.5 (snd (secondSinceStart w))))"
      let ?cur = "fst (getTemp (sleep 0.5 (snd (secondSinceStart w))))"
      have w2: "trace ?w2 = trace w @ [Sleep 0.5]" by (simp add: hardware_ops)
      show ?thesis
      proof (cases "maintain_bands targetTemp tolerance type ?cur ?w2")
        case (Inl e)
        with 1(2) Inr True have "fst y = ?w2" by (auto simp add: hardware_ops)
        with w2 show ?thesis by simp
      next
        case (Inr w3)
        with 1(2) \<open>num_of duration = Inr d\<close> True
        have "loop start0 duration targetTemp tolerance type w3 = Some y"
          by (simp add: hardware_ops)
        from 1(1) [OF this] obtain evs where "trace (fst y) = trace w3 @ evs" ..
        moreover from maintain_bands_trace [OF Inr] obtain evs' where "trace w3 = trace ?w2 @ evs'" ..
        ultimately show ?thesis using w2 by simp
      qed
    qed
  qed
qed

lemma maintain_loop_returns:
  assumes "d \<le> clock w (clockReads w + k) - start0"
  shows "\<exists>w'. maintain_loop start0 (PNum d) (PNum targetTemp) (PNum tolerance) type w = Some (w', Inr ())"
  using assms
proof (induction k arbitrary: w)
  case 0
  then show ?case
    by (subst maintain_loop.simps) (simp add: hardware_ops num_of_def)
next
  case (Suc k)
  show ?case
  proof (cases "clock w (clockReads w) - start0 < d")
    case False
    then show ?thesis
      by (subst maintain_loop.simps) (simp add: hardware_ops num_of_def)
  next
    case True
    let ?w2 = "snd (getTemp (sleep 0.5 (snd (secondSinceStart w))))"
    let ?cur = "fst (getTemp (sleep 0.5 (snd (secondSinceStart w))))"
    obtain w3 where w3: "maintain_bands (PNum targetTemp) (PNum tolerance) type ?cur ?w2 = Inr w3"
      by (simp add: maintain_bands_def num_of_def Let_def)
    from maintain_bands_clock [OF w3]
    have "clock w3 = clock w" and "clockReads w3 = Suc (clockReads w)"
      by (simp_all add: hardware_ops)
    with Suc.prems have "d \<le> clock w3 (clockReads w3 + k) - start0" by simp
    from Suc.IH [OF this] obtain w' where
      "maintain_loop start0 (PNum d) (PNum targetTemp) (PNum tolerance) type w3 = Some (w', Inr ())" ..
    moreover have "maintain_loop start0 (PNum d) (PNum targetTemp) (PNum tolerance) type w =
        maintain_loop start0 (PNum d) (PNum targetTemp) (PNum tolerance) type w3"
      using True w3 by (subst maintain_loop.simps) (simp add: hardware_ops num_of_def)
    ultimately show ?thesis by simp
  qed
qed

lemma hold_run:
  "maintain holdParameters world0 =
     Some (world0\<lparr>trace := [Sleep 0.5, TurnHeaterOn, TurnHeaterOff, TurnCoolerOff],
                  tempReads := 1, clockReads := 3\<rparr>, Inr ())"
  apply (simp add: maintain_def holdParameters_def secondSinceStart_def world0_def)
  apply (subst maintain_loop.simps)
  apply (simp add: hardware_ops num_of_def maintain_bands_def)
  apply (subst maintain_loop.simps)
  apply (simp add: hardware_ops num_of_def maintain_bands_def)
  done

text \<open>
  C7. Whatever the parameters and the readings, when \<^verbatim>\<open>maintain\<close> returns, the last two
  events of the trace are heater off and cooler off. And it does return when the four
  parameters are present, time, target and tolerance are numbers, and some later clock
  reading is at least \<^verbatim>\<open>time\<close> seconds past the reading taken at entry.
\<close>

theorem maintain_exit_both_off:
  "(maintain parameters w = Some (w', Inr ()) \<longrightarrow>
      (\<exists>evs. trace w' = trace w @ evs @ [TurnHeaterOff, TurnCoolerOff])) \<and>
   (parameters ''time'' = Some (PNum d) \<and> parameters ''temp'' = Some (PNum targetTemp) \<and>
    parameters ''tolerance'' = Some (PNum tolerance) \<and> parameters ''type'' = Some type \<and>
    d \<le> clock w (clockReads w + 1 + k) - clock w (clockReads w) \<longrightarrow>
      (\<exists>w'. maintain parameters w = Some (w', Inr ())))"
proof (intro conjI impI)
  assume m: "maintain parameters w = Some (w', Inr ())"
  then obtain duration targetTemp tolerance type w1
    where loop: "maintain_loop (fst (secondSinceStart w)) duration targetTemp tolerance type
                   (snd (secondSinceStart w)) = Some (w1, Inr ())"
      and w': "w' = turnCoolerOff (turnHeaterOff w1)"
    by (auto simp add: maintain_def split: option.splits prod.splits sum.splits)
  from maintain_loop_trace [OF loop] obtain evs where "trace w1 = trace w @ evs"
    by (auto simp add: hardware_ops)
  with w' have "trace w' = trace w @ evs @ [TurnHeaterOff, TurnCoolerOff]"
    by (simp add: hardware_ops)
  then show "\<exists>evs. trace w' = trace w @ evs @ [TurnHeaterOff, TurnCoolerOff]" ..
next
  assume a: "parameters ''time'' = Some (PNum d) \<and> parameters ''temp'' = Some (PNum targetTemp) \<and>
    parameters ''tolerance'' = Some (PNum tolerance) \<and> parameters ''type'' = Some type \<and>
    d \<le> clock w (clockReads w + 1 + k) - clock w (clockReads w)"
  let ?w0 = "snd (secondSinceStart w)"
  have "d \<le> clock ?w0 (clockReads ?w0 + k) - fst (secondSinceStart w)"
    using a by (simp add: hardware_ops)
  from maintain_loop_returns [OF this, of targetTemp tolerance type] obtain w1 where
    "maintain_loop (fst (secondSinceStart w)) (PNum d) (PNum targetTemp) (PNum tolerance) type ?w0
       = Some (w1, Inr ())" ..
  with a show "\<exists>w'. maintain parameters w = Some (w', Inr ())"
    by (simp add: maintain_def case_prod_beta)
qed

theorem maintain_exit_both_off_witness:
  "maintain holdParameters world0 =
     Some (world0\<lparr>trace := [Sleep 0.5, TurnHeaterOn, TurnHeaterOff, TurnCoolerOff],
                  tempReads := 1, clockReads := 3\<rparr>, Inr ()) \<and>
   (\<exists>evs. [Sleep 0.5, TurnHeaterOn, TurnHeaterOff, TurnCoolerOff] =
            trace world0 @ evs @ [TurnHeaterOff, TurnCoolerOff]) \<and>
   (\<exists>w'. maintain holdParameters world0 = Some (w', Inr ()))"
proof -
  have c: "1 \<le> clock world0 (clockReads world0 + 1 + 1) - clock world0 (clockReads world0)"
    by (simp add: world0_def)
  have p: "holdParameters ''time'' = Some (PNum 1) \<and> holdParameters ''temp'' = Some (PNum 65) \<and>
    holdParameters ''tolerance'' = Some (PNum 2) \<and> holdParameters ''type'' = Some (PStr ''heat'')"
    by (simp add: holdParameters_def)
  from maintain_exit_both_off [of holdParameters world0
      "world0\<lparr>trace := [Sleep 0.5, TurnHeaterOn, TurnHeaterOff, TurnCoolerOff],
                  tempReads := 1, clockReads := 3\<rparr>" 1 65 2 "PStr ''heat''" 1] hold_run c p
  show ?thesis by simp
qed

subsection \<open>\<^verbatim>\<open>heat\<close> terminates\<close>

lemma heat_loop_first_reached:
  "(\<forall>j<k. temps w (tempReads w + j) < t) \<Longrightarrow> t \<le> temps w (tempReads w + k) \<Longrightarrow>
   heat_loop (PNum t) w =
     Some (w\<lparr>trace := trace w @ replicate k (Sleep 0.5), tempReads := tempReads w + k + 1\<rparr>,
           Inr ())"
proof (induction k arbitrary: w)
  case 0
  then show ?case
    by (subst heat_loop.simps) (simp add: hardware_ops num_of_def)
next
  case (Suc k)
  let ?w = "sleep 0.5 (snd (getTemp w))"
  have now: "temps w (tempReads w) < t"
    using Suc.prems(1) by (metis add.right_neutral zero_less_Suc)
  have before: "\<forall>j<k. temps ?w (tempReads ?w + j) < t"
    using Suc.prems(1) by (auto simp add: hardware_ops)
  have reached: "t \<le> temps ?w (tempReads ?w + k)"
    using Suc.prems(2) by (simp add: hardware_ops)
  have "heat_loop (PNum t) w = heat_loop (PNum t) ?w"
    using now by (subst heat_loop.simps) (simp add: hardware_ops num_of_def)
  also have "\<dots> = Some (?w\<lparr>trace := trace ?w @ replicate k (Sleep 0.5),
                             tempReads := tempReads ?w + k + 1\<rparr>, Inr ())"
    by (rule Suc.IH [OF before reached])
  also have "?w\<lparr>trace := trace ?w @ replicate k (Sleep 0.5), tempReads := tempReads ?w + k + 1\<rparr>
      = w\<lparr>trace := trace w @ replicate (Suc k) (Sleep 0.5), tempReads := tempReads w + Suc k + 1\<rparr>"
    by (simp add: hardware_ops replicate_append_same)
  finally show ?case .
qed

lemma first_reading:
  fixes f :: "nat \<Rightarrow> real"
  assumes "\<exists>k. t \<le> f k"
  shows "\<exists>k. (\<forall>j<k. f j < t) \<and> t \<le> f k"
proof -
  from assms obtain k where k: "t \<le> f k" ..
  let ?m = "LEAST k. t \<le> f k"
  have "t \<le> f ?m" using k by (rule LeastI)
  moreover have "\<forall>j<?m. f j < t"
    using not_less_Least [of _ "\<lambda>k. t \<le> f k"] by (auto simp: not_le)
  ultimately show ?thesis by blast
qed

text \<open>
  C8. With the parameter \<^verbatim>\<open>temp\<close> 65 and a sensor whose readings from now on are 60,
  61, 62, ..., \<^verbatim>\<open>heat\<close> returns after six readings: the heater is turned on, there are
  exactly five sleeps of half a second, and the last command is heater off. In general,
  if the reading number \<open>k\<close> from now is the first that is not below a numeric target,
  \<^verbatim>\<open>heat\<close> returns after exactly \<open>k\<close> sleeps with the heater turned off last; so it
  returns whenever some reading reaches the target.
\<close>

theorem heat_terminates:
  "((\<forall>k. temps w (tempReads w + k) = 60 + real k) \<longrightarrow>
      heat [''temp'' \<mapsto> PNum 65] w =
        Some (w\<lparr>trace := trace w @ [TurnHeaterOn] @ replicate 5 (Sleep 0.5) @ [TurnHeaterOff],
                tempReads := tempReads w + 6\<rparr>, Inr ())) \<and>
   (parameters ''temp'' = Some (PNum t) \<and>
    (\<forall>j<k. temps w (tempReads w + j) < t) \<and> t \<le> temps w (tempReads w + k) \<longrightarrow>
      heat parameters w =
        Some (w\<lparr>trace := trace w @ [TurnHeaterOn] @ replicate k (Sleep 0.5) @ [TurnHeaterOff],
                tempReads := tempReads w + k + 1\<rparr>, Inr ())) \<and>
   (parameters ''temp'' = Some (PNum t) \<and> (\<exists>k. t \<le> temps w (tempReads w + k)) \<longrightarrow>
      (\<exists>w'. heat parameters w = Some (w', Inr ()) \<and> last (trace w') = TurnHeaterOff))"
proof -
  have exact: "heat parameters w =
        Some (w\<lparr>trace := trace w @ [TurnHeaterOn] @ replicate k (Sleep 0.5) @ [TurnHeaterOff],
                tempReads := tempReads w + k + 1\<rparr>, Inr ())"
    if p: "parameters ''temp'' = Some (PNum t)"
      and b: "\<forall>j<k. temps w (tempReads w + j) < t" and r: "t \<le> temps w (tempReads w + k)"
    for parameters t k
  proof -
    let ?w = "turnHeaterOn w"
    have "heat_loop (PNum t) ?w =
       Some (?w\<lparr>trace := trace ?w @ replicate k (Sleep 0.5), tempReads := tempReads ?w + k + 1\<rparr>,
             Inr ())"
      using b r by (intro heat_loop_first_reached) (simp_all add: hardware_ops)
    then show ?thesis
      using p by (simp add: heat_def hardware_ops)
  qed
  have concrete: "heat [''temp'' \<mapsto> PNum 65] w =
        Some (w\<lparr>trace := trace w @ [TurnHeaterOn] @ replicate 5 (Sleep 0.5) @ [TurnHeaterOff],
                tempReads := tempReads w + 6\<rparr>, Inr ())"
    if s: "\<forall>k. temps w (tempReads w + k) = 60 + real k"
  proof -
    have "\<forall>j<5. temps w (tempReads w + j) < 65" using s by simp
    moreover have "65 \<le> temps w (tempReads w + 5)" using s by simp
    ultimately show ?thesis
      using exact [of "[''temp'' \<mapsto> PNum 65]" 65 5] by simp
  qed
  have general: "\<exists>w'. heat parameters w = Some (w', Inr ()) \<and> last (trace w') = TurnHeaterOff"
    if p: "parameters ''temp'' = Some (PNum t)" and e: "\<exists>k. t \<le> temps w (tempReads w + k)"
  proof -
    from first_reading [OF e] obtain k
      where kb: "\<forall>j<k. temps w (tempReads w + j) < t" and kr: "t \<le> temps w (tempReads w + k)"
      by blast
    from exact [of parameters t k] p kb kr show ?thesis by simp
  qed
  from exact concrete general show ?thesis by blast
qed

theorem heat_terminates_witness:
  "heat [''temp'' \<mapsto> PNum 65] world0 =
     Some (world0\<lparr>trace := [TurnHeaterOn, Sleep 0.5, Sleep 0.5, Sleep 0.5, Sleep 0.5, Sleep 0.5,
                           TurnHeaterOff], tempReads := 6\<rparr>, Inr ()) \<and>
   length (filter (\<lambda>e. e = Sleep 0.5) (trace (fst (the (heat [''temp'' \<mapsto> PNum 65] world0))))) = 5"
proof -
  have "\<forall>k. temps world0 (tempReads world0 + k) = 60 + real k"
    by (simp add: world0_def)
  with heat_terminates [of world0 "[''temp'' \<mapsto> PNum 65]" 65 5]
  have "heat [''temp'' \<mapsto> PNum 65] world0 =
        Some (world0\<lparr>trace := trace world0 @ [TurnHeaterOn] @ replicate 5 (Sleep 0.5) @ [TurnHeaterOff],
                tempReads := tempReads world0 + 6\<rparr>, Inr ())"
    by blast
  then show ?thesis
    by (simp add: world0_def numeral_eq_Suc)
qed

end
